theory Spec2Isabelle
  imports Complex_Main
begin

text \<open>
  The ingestion pipeline of server.js: validateCarpark, scrapeWithRetry, scrapeCarparks and
  formatDisplayInfo. Network, clock, random numbers and the loaded documents are inputs;
  requests, waits, log entries and database writes are listed as events; an exception is
  the left summand of a result.
\<close>

section \<open>JavaScript values used by server.js\<close>

subsection \<open>Strings\<close>

text \<open>
  A JavaScript string is a sequence of UTF-16 code units. The literals of server.js are
  Chinese, so they are written here by their code units; \<open>ascii\<close> embeds an ASCII literal.
\<close>

type_synonym jsstring = "nat list"

definition ascii :: "string \<Rightarrow> jsstring" where
  "ascii s = map of_char s"

text \<open>The white space and line terminators that \<open>String.prototype.trim\<close> strips.\<close>

definition is_ws :: "nat \<Rightarrow> bool" where
  "is_ws c \<longleftrightarrow>
     c = 0x09 \<or> c = 0x0A \<or> c = 0x0B \<or> c = 0x0C \<or> c = 0x0D \<or> c = 0x20 \<or> c = 0xA0 \<or>
     c = 0x1680 \<or> (0x2000 \<le> c \<and> c \<le> 0x200A) \<or> c = 0x2028 \<or> c = 0x2029 \<or>
     c = 0x202F \<or> c = 0x205F \<or> c = 0x3000 \<or> c = 0xFEFF"

definition trim :: "jsstring \<Rightarrow> jsstring" where
  "trim s = rev (dropWhile is_ws (rev (dropWhile is_ws s)))"

text \<open>\<open>Array.prototype.join\<close> on an array of strings.\<close>

fun join :: "jsstring \<Rightarrow> jsstring list \<Rightarrow> jsstring" where
  "join sep [] = []"
| "join sep [x] = x"
| "join sep (x # y # ys) = x @ sep @ join sep (y # ys)"

subsection \<open>Numbers\<close>

text \<open>
  \<open>parseFloat\<close> yields a double: a finite value, an infinity or NaN. The finite values are
  taken as reals (\<open>-0\<close> is \<open>0\<close>: the two are equal under every comparison server.js makes and
  both are falsy). Capacities and counts come from \<open>parseInt(..) || 0\<close> and are integers.
\<close>

datatype jsnum = Finite real | PosInf | NegInf | NaN

definition truthy_num :: "jsnum \<Rightarrow> bool" where
  "truthy_num x = (case x of Finite r \<Rightarrow> r \<noteq> 0 | PosInf \<Rightarrow> True | NegInf \<Rightarrow> True | NaN \<Rightarrow> False)"

definition isNaN :: "jsnum \<Rightarrow> bool" where
  "isNaN x = (case x of NaN \<Rightarrow> True | _ \<Rightarrow> False)"

text \<open>\<open>x >= k\<close> and \<open>x <= k\<close> against a finite constant; every comparison with NaN is false.\<close>

definition num_ge :: "jsnum \<Rightarrow> real \<Rightarrow> bool" where
  "num_ge x k = (case x of Finite r \<Rightarrow> k \<le> r | PosInf \<Rightarrow> True | NegInf \<Rightarrow> False | NaN \<Rightarrow> False)"

definition num_le :: "jsnum \<Rightarrow> real \<Rightarrow> bool" where
  "num_le x k = (case x of Finite r \<Rightarrow> r \<le> k | PosInf \<Rightarrow> False | NegInf \<Rightarrow> True | NaN \<Rightarrow> False)"

text \<open>\<open>parseInt(s) || 0\<close>: NaN (no digits) and \<open>0\<close> both give \<open>0\<close>.\<close>

definition or_zero :: "int option \<Rightarrow> int" where
  "or_zero p = (case p of None \<Rightarrow> 0 | Some n \<Rightarrow> n)"

text \<open>\<open>s || d\<close> on a string: the empty string is falsy.\<close>

definition or_default :: "jsstring \<Rightarrow> jsstring \<Rightarrow> jsstring" where
  "or_default s d = (if s = [] then d else s)"

text \<open>
  The built-ins server.js calls and does not define are parameters of the model:
  \<open>parseInt\<close> (\<open>None\<close> is NaN), \<open>parseFloat\<close> on an attribute value (\<open>None\<close> is a missing
  attribute, \<open>undefined\<close>), \<open>localeCompare(_, 'zh-Hant')\<close>, and the exponent notation
  of \<open>String(n)\<close> for a number of 22 digits or more.
\<close>

record runtime =
  parseInt :: "jsstring \<Rightarrow> int option"
  parseFloat :: "jsstring option \<Rightarrow> jsnum"
  localeCompare :: "jsstring \<Rightarrow> jsstring \<Rightarrow> int"
  exponent_notation :: "int \<Rightarrow> jsstring"

text \<open>
  \<open>String(n)\<close> for an integer-valued number, as a template literal renders it. Below
  \<open>10^21\<close> in absolute value it is the decimal numeral, with a minus sign below zero; from
  \<open>10^21\<close> on JavaScript writes exponent notation with the shortest digits that give the
  double back, which is left to the runtime.
\<close>

fun nat_digits :: "nat \<Rightarrow> jsstring" where
  "nat_digits n = (if n < 10 then [48 + n] else nat_digits (n div 10) @ [48 + n mod 10])"

declare nat_digits.simps [simp del]

definition number_toString :: "runtime \<Rightarrow> int \<Rightarrow> jsstring" where
  "number_toString rt i =
     (if \<bar>i\<bar> < 1000000000000000000000
      then (if i < 0 then 0x2D # nat_digits (nat (- i)) else nat_digits (nat i))
      else exponent_notation rt i)"

section \<open>The carpark object\<close>

text \<open>
  The object literals of scrapeCarparks (lines 168-184 and 205-221). A property that one of
  the two literals does not set is \<open>None\<close> (\<open>undefined\<close>); \<open>isStreetParking\<close> is only ever
  \<open>true\<close> or missing, and missing is \<open>False\<close> here. \<open>hasCharging\<close> and \<open>displayInfo\<close> are
  set by the merge loop.
\<close>

record street_parking =
  sp_total :: int
  sp_available :: int
  sp_fee :: jsstring

record carpark =
  name :: jsstring
  address :: jsstring
  capacity :: int
  latitude :: jsnum
  longitude :: jsnum
  nearbyBuildings :: "jsstring list"
  chargingStations :: int
  chargingProvider :: jsstring
  chargingType :: jsstring
  isStreetParking :: bool
  streetParking :: street_parking
  openingHours :: "jsstring option"
  contactNumber :: "jsstring option"
  facilities :: "jsstring list option"
  lastUpdated :: "jsstring option"
  hasCharging :: "bool option"
  displayInfo :: "jsstring option"

section \<open>validateCarpark (server.js 63-75)\<close>

text \<open>
  The function returns the value of the \<open>&&\<close> chain; both callers (\<open>if\<close> and \<open>filter\<close>)
  use its truthiness, which is what the model returns. \<open>carpark.name\<close> is always a string
  and is truthy when non-empty.
\<close>

definition validateCarpark :: "carpark \<Rightarrow> bool" where
  "validateCarpark c \<longleftrightarrow>
     name c \<noteq> [] \<and>
     truthy_num (latitude c) \<and>
     truthy_num (longitude c) \<and>
     \<not> isNaN (latitude c) \<and>
     \<not> isNaN (longitude c) \<and>
     num_ge (latitude c) (- 90) \<and>
     num_le (latitude c) 90 \<and>
     num_ge (longitude c) (- 180) \<and>
     num_le (longitude c) 180"

section \<open>Errors, documents and observable effects\<close>

text \<open>
  An axios rejection: \<open>error.message\<close> and \<open>error.response.status\<close>; the status is
  \<open>None\<close> when there is no response (network error, timeout).
\<close>

record axios_error =
  message :: jsstring
  status :: "nat option"

datatype 'd axios_result = Rejected axios_error | Resolved 'd

text \<open>
  What can be thrown inside the \<open>try\<close> of scrapeCarparks: a rejected fetch, an exception
  out of a cheerio call, and the \<open>Error\<close> of line 267.
\<close>

datatype error = FetchError axios_error | ExtractionError jsstring | NoValidData

definition msg_no_valid_data :: jsstring where
  "msg_no_valid_data =
     [0x6C92, 0x6709, 0x6709, 0x6548, 0x7684, 0x505C, 0x8ECA, 0x5834, 0x6578, 0x64DA]"

definition error_message :: "error \<Rightarrow> jsstring" where
  "error_message e =
     (case e of FetchError a \<Rightarrow> message a | ExtractionError m \<Rightarrow> m | NoValidData \<Rightarrow> msg_no_valid_data)"

text \<open>
  A loaded document is what the selectors of scrapeCarparks find in it. Each element is
  given by the texts and attributes that the element's callback reads (\<open>.find(sel).text()\<close>
  is the empty string when nothing matches, \<open>.attr(a)\<close> is \<open>None\<close> when the attribute is
  missing), or it is an element on which those calls throw.
\<close>

datatype 'a node = Throws jsstring | Node 'a

record street_parking_info =
  info_total_spaces :: jsstring
  info_available_spaces :: jsstring
  info_parking_fee :: jsstring

record carpark_item =
  carpark_name :: jsstring
  carpark_address :: jsstring
  carpark_capacity :: jsstring
  item_data_lat :: "jsstring option"
  item_data_lng :: "jsstring option"
  street_parking_info :: "street_parking_info option"
  opening_hours :: jsstring
  contact :: jsstring
  facilities_texts :: "jsstring list"

record street_parking_zone =
  zone_name :: jsstring
  zone_address :: jsstring
  total_spaces :: jsstring
  zone_data_lat :: "jsstring option"
  zone_data_lng :: "jsstring option"
  parking_fee :: jsstring

record charger_location =
  location_name :: jsstring
  provider_texts :: "jsstring list"
  charger_type_texts :: "jsstring list"
  charger_count :: jsstring

record document =
  carpark_items :: "carpark_item node list"
  street_parking_zones :: "street_parking_zone node list"
  charger_locations :: "charger_location node list"

text \<open>
  A document of the CarparkModel collection. The schema (lines 19-22) has \<open>data\<close> and
  \<open>lastUpdated\<close>; the time is in milliseconds.
\<close>

record snapshot =
  snapshot_data :: "carpark list"
  snapshot_lastUpdated :: int

text \<open>The effects a caller can observe: requests, waits, log entries, database writes.\<close>

datatype event =
    HttpGet jsstring
  | LogFetchError jsstring jsstring
  | LogRetry nat jsstring jsstring
  | Sleep int
  | LogParseError jsstring
  | LogInvalidCarpark carpark
  | LogPipelineError jsstring
  | LogUsingCache int
  | DbCreate snapshot

text \<open>
  Everything one call of scrapeCarparks reads from outside: the clock, the outcome of the
  \<open>k\<close>-th \<open>axios.get\<close> of a URL (\<open>k\<close> from 1), the values of \<open>Math.random()\<close> drawn for
  the backoff of a URL, and which of two failing fetches rejects first. \<open>now\<close> is
  \<open>Date.now()\<close> at the cache check, \<open>iso_now i\<close> the ISO time while the \<open>i\<close>-th carpark
  item is read, \<open>create_now\<close> the time of the write and \<open>catch_now\<close> the time in the
  handler.
\<close>

record world =
  now :: int
  http_get :: "jsstring \<Rightarrow> nat \<Rightarrow> document axios_result"
  math_random :: "jsstring \<Rightarrow> nat \<Rightarrow> real"
  hk01_rejects_first :: bool
  iso_now :: "nat \<Rightarrow> jsstring"
  create_now :: int
  catch_now :: int

section \<open>scrapeWithRetry (server.js 78-110)\<close>

subsection \<open>The async-retry dependency\<close>

text \<open>
  Modelled from the spec: \<open>retry(fn, opts)\<close> of the async-retry package, which server.js
  requires and which is not part of the sources. The spec (4.1) gives its contract: one
  initial attempt and up to \<open>retries\<close> further ones, with increasing backoff between
  \<open>minTimeout\<close> and \<open>maxTimeout\<close>; a bail ends the operation at once; any other failure is
  retried until the attempts are exhausted, then surfaced; every retry is reported with
  the attempt number and the failure. The delay formula, the ascending sort of the delays
  and the choice of the surfaced error (the most frequent message, the latest on a tie)
  are those of the package, with its defaults \<open>factor = 2\<close> and \<open>randomize = true\<close>.
\<close>

record retry_options =
  retries :: nat
  minTimeout :: int
  maxTimeout :: int

definition createTimeout :: "retry_options \<Rightarrow> real \<Rightarrow> nat \<Rightarrow> int" where
  "createTimeout opts rnd attempt =
     min (round ((rnd + 1) * of_int (max (minTimeout opts) 1) * 2 ^ attempt)) (maxTimeout opts)"

definition timeouts :: "retry_options \<Rightarrow> (nat \<Rightarrow> real) \<Rightarrow> int list" where
  "timeouts opts rnd = sort (map (\<lambda>i. createTimeout opts (rnd i) i) [0..<retries opts])"

fun mainError_loop ::
  "axios_error list \<Rightarrow> (jsstring \<Rightarrow> nat) \<Rightarrow> axios_error option \<Rightarrow> nat \<Rightarrow> axios_error option" where
  "mainError_loop [] counts mainErr mainCount = mainErr"
| "mainError_loop (e # es) counts mainErr mainCount =
     (let c = counts (message e) + 1 in
      if c \<ge> mainCount
      then mainError_loop es (counts(message e := c)) (Some e) c
      else mainError_loop es (counts(message e := c)) mainErr mainCount)"

definition mainError :: "axios_error list \<Rightarrow> axios_error option" where
  "mainError errs = mainError_loop errs (\<lambda>_. 0) None 0"

text \<open>What one call of the retried function does: return a value, bail, or throw.\<close>

datatype 'a attempt = Returned 'a | Bailed axios_error | Thrown axios_error

text \<open>
  \<open>ts\<close> are the delays still available, \<open>num\<close> the number of the running attempt and
  \<open>errs\<close> the errors thrown so far. After the last delay is used up the operation rejects
  with \<open>mainError\<close> of all the errors (never null: the list holds the error just thrown).
\<close>

fun retry_loop ::
  "(nat \<Rightarrow> 'a attempt \<times> event list) \<Rightarrow> (axios_error \<Rightarrow> nat \<Rightarrow> event list) \<Rightarrow>
   int list \<Rightarrow> nat \<Rightarrow> axios_error list \<Rightarrow> (axios_error + 'a) \<times> event list" where
  "retry_loop fn onRetry [] num errs =
     (case fn num of
        (Returned v, evs) \<Rightarrow> (Inr v, evs)
      | (Bailed e, evs) \<Rightarrow> (Inl e, evs)
      | (Thrown e, evs) \<Rightarrow>
          (case mainError (errs @ [e]) of Some m \<Rightarrow> (Inl m, evs) | None \<Rightarrow> (Inl e, evs)))"
| "retry_loop fn onRetry (t # ts) num errs =
     (case fn num of
        (Returned v, evs) \<Rightarrow> (Inr v, evs)
      | (Bailed e, evs) \<Rightarrow> (Inl e, evs)
      | (Thrown e, evs) \<Rightarrow>
          (case retry_loop fn onRetry ts (Suc num) (errs @ [e]) of
             (r, evs') \<Rightarrow> (r, evs @ onRetry e num @ [Sleep t] @ evs')))"

definition retry ::
  "(nat \<Rightarrow> 'a attempt \<times> event list) \<Rightarrow> (axios_error \<Rightarrow> nat \<Rightarrow> event list) \<Rightarrow>
   retry_options \<Rightarrow> (nat \<Rightarrow> real) \<Rightarrow> (axios_error + 'a) \<times> event list" where
  "retry fn onRetry opts rnd = retry_loop fn onRetry (timeouts opts rnd) 1 []"

subsection \<open>The retried request\<close>

definition scrape_options :: retry_options where
  "scrape_options = \<lparr>retries = 3, minTimeout = 2000, maxTimeout = 5000\<rparr>"

text \<open>
  The callback of lines 88-100: a response resolves; a rejection is logged, then a 404
  bails and anything else is thrown again.
\<close>

definition scrape_attempt :: "world \<Rightarrow> jsstring \<Rightarrow> nat \<Rightarrow> document attempt \<times> event list" where
  "scrape_attempt w url num =
     (case http_get w url num of
        Resolved d \<Rightarrow> (Returned d, [HttpGet url])
      | Rejected e \<Rightarrow>
          (if status e = Some 404 then Bailed e else Thrown e,
           [HttpGet url, LogFetchError url (message e)]))"

text \<open>The \<open>onRetry\<close> callback of lines 105-107.\<close>

definition scrape_onRetry :: "jsstring \<Rightarrow> axios_error \<Rightarrow> nat \<Rightarrow> event list" where
  "scrape_onRetry url e num = [LogRetry num url (message e)]"

definition scrapeWithRetry :: "world \<Rightarrow> jsstring \<Rightarrow> (axios_error + document) \<times> event list" where
  "scrapeWithRetry w url =
     retry (scrape_attempt w url) (scrape_onRetry url) scrape_options (math_random w url)"

section \<open>Extraction (server.js 134-238)\<close>

definition lit_24_hours :: jsstring where
  "lit_24_hours = [0x32, 0x34, 0x5C0F, 0x6642]"

definition lit_not_provided :: jsstring where
  "lit_not_provided = [0x672A, 0x63D0, 0x4F9B]"

definition zone_marker :: jsstring where
  "zone_marker = [0x8DEF, 0x65C1, 0x6CCA, 0x8ECA, 0x5340, 0x20, 0x2D, 0x20]"

text \<open>The object built for one \<open>.carpark-item\<close> (lines 139-184).\<close>

definition carparkData :: "runtime \<Rightarrow> jsstring \<Rightarrow> carpark_item \<Rightarrow> carpark" where
  "carparkData rt stamp elem =
     \<lparr> name = trim (carpark_name elem),
       address = trim (carpark_address elem),
       capacity = or_zero (parseInt rt (carpark_capacity elem)),
       latitude = parseFloat rt (item_data_lat elem),
       longitude = parseFloat rt (item_data_lng elem),
       nearbyBuildings = [],
       chargingStations = 0,
       chargingProvider = [],
       chargingType = [],
       isStreetParking = False,
       streetParking =
         (case street_parking_info elem of
            None \<Rightarrow> \<lparr>sp_total = 0, sp_available = 0, sp_fee = []\<rparr>
          | Some info \<Rightarrow>
              \<lparr>sp_total = or_zero (parseInt rt (info_total_spaces info)),
               sp_available = or_zero (parseInt rt (info_available_spaces info)),
               sp_fee = trim (info_parking_fee info)\<rparr>),
       openingHours = Some (or_default (trim (opening_hours elem)) lit_24_hours),
       contactNumber = Some (or_default (trim (contact elem)) lit_not_provided),
       facilities = Some (map trim (facilities_texts elem)),
       lastUpdated = Some stamp,
       hasCharging = None,
       displayInfo = None \<rparr>"

text \<open>
  The \<open>.carpark-item\<close> loop (lines 137-194). Its callback has a \<open>try\<close>/\<open>catch\<close>: an element
  that throws is logged and the loop goes on; an invalid object is logged and not pushed.
\<close>

fun parse_carpark_items ::
  "runtime \<Rightarrow> world \<Rightarrow> nat \<Rightarrow> carpark_item node list \<Rightarrow> carpark list \<times> event list" where
  "parse_carpark_items rt w i [] = ([], [])"
| "parse_carpark_items rt w i (Throws m # elems) =
     (case parse_carpark_items rt w (Suc i) elems of
        (cs, evs) \<Rightarrow> (cs, LogParseError m # evs))"
| "parse_carpark_items rt w i (Node elem # elems) =
     (case parse_carpark_items rt w (Suc i) elems of
        (cs, evs) \<Rightarrow>
          (let c = carparkData rt (iso_now w i) elem in
           if validateCarpark c then (c # cs, evs) else (cs, LogInvalidCarpark c # evs)))"

text \<open>The object pushed for one \<open>.street-parking-zone\<close> (lines 198-221).\<close>

definition zoneData :: "runtime \<Rightarrow> street_parking_zone \<Rightarrow> carpark" where
  "zoneData rt elem =
     (let totalSpaces = or_zero (parseInt rt (total_spaces elem)) in
      \<lparr> name = zone_marker @ trim (zone_name elem),
        address = trim (zone_address elem),
        capacity = totalSpaces,
        latitude = parseFloat rt (zone_data_lat elem),
        longitude = parseFloat rt (zone_data_lng elem),
        nearbyBuildings = [],
        chargingStations = 0,
        chargingProvider = [],
        chargingType = [],
        isStreetParking = True,
        streetParking =
          \<lparr>sp_total = totalSpaces, sp_available = totalSpaces, sp_fee = trim (parking_fee elem)\<rparr>,
        openingHours = None,
        contactNumber = None,
        facilities = None,
        lastUpdated = None,
        hasCharging = None,
        displayInfo = None \<rparr>)"

text \<open>
  The \<open>.street-parking-zone\<close> loop (lines 197-222). The callback has no handler: an element
  that throws ends the loop, and the exception leaves the \<open>try\<close> block of scrapeCarparks.
\<close>

fun parse_street_parking_zones ::
  "runtime \<Rightarrow> street_parking_zone node list \<Rightarrow> error + carpark list" where
  "parse_street_parking_zones rt [] = Inr []"
| "parse_street_parking_zones rt (Throws m # elems) = Inl (ExtractionError m)"
| "parse_street_parking_zones rt (Node elem # elems) =
     (case parse_street_parking_zones rt elems of
        Inl e \<Rightarrow> Inl e
      | Inr cs \<Rightarrow> Inr (zoneData rt elem # cs))"

text \<open>The value stored in \<open>chargerMap\<close> (lines 233-237).\<close>

record charger_info =
  count :: int
  providers :: jsstring
  types :: jsstring

definition comma :: jsstring where
  "comma = [0x2C, 0x20]"

definition chargerInfo :: "runtime \<Rightarrow> charger_location \<Rightarrow> charger_info" where
  "chargerInfo rt elem =
     \<lparr> count = or_zero (parseInt rt (trim (charger_count elem))),
       providers = join comma (map trim (provider_texts elem)),
       types = join comma (map trim (charger_type_texts elem)) \<rparr>"

text \<open>
  The \<open>.charger-location\<close> loop (lines 227-238), again without a handler. \<open>Map.set\<close>
  replaces the value of a key that is already there.
\<close>

fun build_chargerMap ::
  "runtime \<Rightarrow> charger_location node list \<Rightarrow> (jsstring \<rightharpoonup> charger_info) \<Rightarrow>
   error + (jsstring \<rightharpoonup> charger_info)" where
  "build_chargerMap rt [] chargerMap = Inr chargerMap"
| "build_chargerMap rt (Throws m # elems) chargerMap = Inl (ExtractionError m)"
| "build_chargerMap rt (Node elem # elems) chargerMap =
     build_chargerMap rt elems (chargerMap(trim (location_name elem) \<mapsto> chargerInfo rt elem))"

section \<open>formatDisplayInfo (server.js 290-317)\<close>

definition lit_street_spaces :: jsstring where
  "lit_street_spaces = [0x8DEF, 0x908A, 0x6CCA, 0x8ECA, 0x4F4D, 0x3A, 0x20]"

definition lit_unit :: jsstring where
  "lit_unit = [0x500B]"

definition lit_fee :: jsstring where
  "lit_fee = [0x6536, 0x8CBB, 0x3A, 0x20]"

definition lit_carpark_spaces :: jsstring where
  "lit_carpark_spaces = [0x505C, 0x8ECA, 0x5834, 0x8ECA, 0x4F4D, 0x3A, 0x20]"

definition lit_street_fee :: jsstring where
  "lit_street_fee = [0x8DEF, 0x908A, 0x6536, 0x8CBB, 0x3A, 0x20]"

definition lit_charging :: jsstring where
  "lit_charging = [0x5145, 0x96FB, 0x7AD9, 0x3A, 0x20]"

definition lit_hours :: jsstring where
  "lit_hours = [0x71DF, 0x696D, 0x6642, 0x9593, 0x3A, 0x20]"

definition bar :: jsstring where
  "bar = [0x20, 0x7C, 0x20]"

definition push :: "'a list \<Rightarrow> 'a \<Rightarrow> 'a list" where
  "push xs x = xs @ [x]"

text \<open>Truthiness of \<open>carpark.openingHours\<close>: set, and not the empty string.\<close>

definition truthy_str :: "jsstring option \<Rightarrow> bool" where
  "truthy_str s = (case s of None \<Rightarrow> False | Some t \<Rightarrow> t \<noteq> [])"

definition formatDisplayInfo :: "runtime \<Rightarrow> carpark \<Rightarrow> jsstring" where
  "formatDisplayInfo rt c =
     (let info = [];
          info =
            (if isStreetParking c then
               (let info = push info (lit_street_spaces @ number_toString rt (capacity c) @ lit_unit) in
                if sp_fee (streetParking c) \<noteq> []
                then push info (lit_fee @ sp_fee (streetParking c))
                else info)
             else
               (let info = push info (lit_carpark_spaces @ number_toString rt (capacity c) @ lit_unit) in
                if sp_total (streetParking c) > 0 then
                  (let info = push info
                         (lit_street_spaces @ number_toString rt (sp_total (streetParking c)) @ lit_unit) in
                   if sp_fee (streetParking c) \<noteq> []
                   then push info (lit_street_fee @ sp_fee (streetParking c))
                   else info)
                else info));
          info =
            (if hasCharging c = Some True
             then push info (lit_charging @ number_toString rt (chargingStations c) @ lit_unit)
             else info);
          info =
            (if truthy_str (openingHours c)
             then push info (lit_hours @ (case openingHours c of Some t \<Rightarrow> t | None \<Rightarrow> []))
             else info)
      in join bar info)"

section \<open>Merge, validation and cache (server.js 112-287)\<close>

text \<open>The callback of the merge loop (lines 241-258); nothing in it throws.\<close>

definition merge_carpark ::
  "runtime \<Rightarrow> (jsstring \<rightharpoonup> charger_info) \<Rightarrow> carpark \<Rightarrow> carpark" where
  "merge_carpark rt chargerMap c =
     (let c' =
        (case chargerMap (name c) of
           Some info \<Rightarrow>
             c\<lparr>chargingStations := count info,
               chargingProvider := providers info,
               chargingType := types info,
               hasCharging := Some True\<rparr>
         | None \<Rightarrow> c\<lparr>hasCharging := Some False\<rparr>)
      in c'\<lparr>displayInfo := Some (formatDisplayInfo rt c')\<rparr>)"

text \<open>
  \<open>Array.prototype.sort\<close> is stable; with a consistent comparator its result is the stable
  insertion sort.
\<close>

fun insert_by :: "('a \<Rightarrow> 'a \<Rightarrow> int) \<Rightarrow> 'a \<Rightarrow> 'a list \<Rightarrow> 'a list" where
  "insert_by cmp x [] = [x]"
| "insert_by cmp x (y # ys) = (if cmp x y \<le> 0 then x # y # ys else y # insert_by cmp x ys)"

definition sort_by :: "('a \<Rightarrow> 'a \<Rightarrow> int) \<Rightarrow> 'a list \<Rightarrow> 'a list" where
  "sort_by cmp xs = foldr (insert_by cmp) xs []"

text \<open>Lines 261-263.\<close>

definition validCarparks :: "runtime \<Rightarrow> carpark list \<Rightarrow> carpark list" where
  "validCarparks rt carparks =
     sort_by (\<lambda>a b. localeCompare rt (name a) (name b)) (filter validateCarpark carparks)"

definition url_hk01 :: jsstring where
  "url_hk01 = ascii ''https://hk01data.github.io/carpark/''"

definition url_kilowatt :: jsstring where
  "url_kilowatt = ascii ''https://www.kilowatt.hk/chargers/''"

text \<open>
  \<open>Promise.all\<close> over the two fetches (lines 126-129). The two run concurrently; their
  events are listed one source after the other. When both reject, the one that rejects
  first is thrown.
\<close>

definition fetch_both :: "world \<Rightarrow> (error + document \<times> document) \<times> event list" where
  "fetch_both w =
     (case scrapeWithRetry w url_hk01 of (r1, evs1) \<Rightarrow>
        (case scrapeWithRetry w url_kilowatt of (r2, evs2) \<Rightarrow>
           ((case (r1, r2) of
               (Inr hk01Data, Inr kilowattData) \<Rightarrow> Inr (hk01Data, kilowattData)
             | (Inl e1, Inr _) \<Rightarrow> Inl (FetchError e1)
             | (Inr _, Inl e2) \<Rightarrow> Inl (FetchError e2)
             | (Inl e1, Inl e2) \<Rightarrow> Inl (FetchError (if hk01_rejects_first w then e1 else e2))),
            evs1 @ evs2)))"

text \<open>
  Lines 131-268, from the loaded documents to the valid carparks. All three selectors are
  applied to \<open>$\<close>, the document loaded from hk01Data; \<open>$k\<close>, loaded from kilowattData, is
  not used by any statement.
\<close>

definition process_documents ::
  "runtime \<Rightarrow> world \<Rightarrow> document \<Rightarrow> document \<Rightarrow> (error + carpark list) \<times> event list" where
  "process_documents rt w hk01Data kilowattData =
     (case parse_carpark_items rt w 0 (carpark_items hk01Data) of (garages, evs) \<Rightarrow>
        (case parse_street_parking_zones rt (street_parking_zones hk01Data) of
           Inl e \<Rightarrow> (Inl e, evs)
         | Inr zones \<Rightarrow>
             (case build_chargerMap rt (charger_locations hk01Data) Map.empty of
                Inl e \<Rightarrow> (Inl e, evs)
              | Inr chargerMap \<Rightarrow>
                  (let carparks = map (merge_carpark rt chargerMap) (garages @ zones);
                       valid = validCarparks rt carparks
                   in if valid = [] then (Inl NoValidData, evs) else (Inr valid, evs)))))"

definition run_pipeline :: "runtime \<Rightarrow> world \<Rightarrow> (error + carpark list) \<times> event list" where
  "run_pipeline rt w =
     (case fetch_both w of
        (Inl e, evs) \<Rightarrow> (Inl e, evs)
      | (Inr (hk01Data, kilowattData), evs) \<Rightarrow>
          (case process_documents rt w hk01Data kilowattData of
             (r, evs') \<Rightarrow> (r, evs @ evs')))"

text \<open>
  The collection is the list of its documents in insertion order.
  \<open>findOne().sort({lastUpdated: -1})\<close> gives a document with the greatest \<open>lastUpdated\<close>
  (the earliest inserted one among equals), or null on an empty collection.
\<close>

fun findOne_latest :: "snapshot list \<Rightarrow> snapshot option" where
  "findOne_latest [] = None"
| "findOne_latest (s # ss) =
     (case findOne_latest ss of
        None \<Rightarrow> Some s
      | Some t \<Rightarrow> if snapshot_lastUpdated t > snapshot_lastUpdated s then Some t else Some s)"

text \<open>The comparison of line 116, on a document that was found.\<close>

definition cache_is_fresh :: "int \<Rightarrow> snapshot \<Rightarrow> bool" where
  "cache_is_fresh t cachedData \<longleftrightarrow> t - snapshot_lastUpdated cachedData < 3600000"

record scrape_result =
  returned :: "error + carpark list"
  collection :: "snapshot list"
  effects :: "event list"

text \<open>
  Lines 120-286: the run behind the cache check, the write of a successful run, and the
  handler, which answers from the latest document if there is one and throws again
  otherwise. Database calls are taken to succeed.
\<close>

definition scrape_fresh :: "runtime \<Rightarrow> world \<Rightarrow> snapshot list \<Rightarrow> scrape_result" where
  "scrape_fresh rt w store =
     (case run_pipeline rt w of
        (Inr valid, evs) \<Rightarrow>
          (let doc = \<lparr>snapshot_data = valid, snapshot_lastUpdated = create_now w\<rparr> in
           \<lparr>returned = Inr valid, collection = store @ [doc], effects = evs @ [DbCreate doc]\<rparr>)
      | (Inl e, evs) \<Rightarrow>
          (case findOne_latest store of
             Some lastCache \<Rightarrow>
               \<lparr>returned = Inr (snapshot_data lastCache), collection = store,
                effects = evs @ [LogPipelineError (error_message e),
                                 LogUsingCache (catch_now w - snapshot_lastUpdated lastCache)]\<rparr>
           | None \<Rightarrow>
               \<lparr>returned = Inl e, collection = store,
                effects = evs @ [LogPipelineError (error_message e)]\<rparr>))"

definition scrapeCarparks :: "runtime \<Rightarrow> world \<Rightarrow> snapshot list \<Rightarrow> scrape_result" where
  "scrapeCarparks rt w store =
     (case findOne_latest store of
        Some cachedData \<Rightarrow>
          if cache_is_fresh (now w) cachedData
          then \<lparr>returned = Inr (snapshot_data cachedData), collection = store, effects = []\<rparr>
          else scrape_fresh rt w store
      | None \<Rightarrow> scrape_fresh rt w store)"

section \<open>Reference statements and sample inputs\<close>

text \<open>The validation rule in the words of the specification (4.4).\<close>

definition finite_in_range :: "jsnum \<Rightarrow> real \<Rightarrow> real \<Rightarrow> bool" where
  "finite_in_range x lo hi = (case x of Finite r \<Rightarrow> lo \<le> r \<and> r \<le> hi | _ \<Rightarrow> False)"

definition spec_validate :: "carpark \<Rightarrow> bool" where
  "spec_validate c \<longleftrightarrow>
     name c \<noteq> [] \<and> finite_in_range (latitude c) (- 90) 90 \<and>
     finite_in_range (longitude c) (- 180) 180"

text \<open>
  The summary in the words of the specification (4.3), over a table of label texts: each
  part is a label, a value and a closing text.
\<close>

record display_labels =
  street_parking_label :: "jsstring \<times> jsstring"
  fee_label :: "jsstring \<times> jsstring"
  parking_units_label :: "jsstring \<times> jsstring"
  street_fee_label :: "jsstring \<times> jsstring"
  charging_label :: "jsstring \<times> jsstring"
  hours_label :: "jsstring \<times> jsstring"

definition part :: "jsstring \<times> jsstring \<Rightarrow> jsstring \<Rightarrow> jsstring" where
  "part l v = fst l @ v @ snd l"

definition spec_displayInfo :: "display_labels \<Rightarrow> runtime \<Rightarrow> carpark \<Rightarrow> jsstring" where
  "spec_displayInfo L rt c =
     join (ascii '' | '')
       ((if isStreetParking c
         then [part (street_parking_label L) (number_toString rt (capacity c))] @
              (if sp_fee (streetParking c) \<noteq> []
               then [part (fee_label L) (sp_fee (streetParking c))] else [])
         else [part (parking_units_label L) (number_toString rt (capacity c))] @
              (if sp_total (streetParking c) > 0
               then [part (street_parking_label L) (number_toString rt (sp_total (streetParking c)))] @
                    (if sp_fee (streetParking c) \<noteq> []
                     then [part (street_fee_label L) (sp_fee (streetParking c))] else [])
               else [])) @
        (if hasCharging c = Some True
         then [part (charging_label L) (number_toString rt (chargingStations c))] else []) @
        (case openingHours c of
           None \<Rightarrow> []
         | Some t \<Rightarrow> if t = [] then [] else [part (hours_label L) t]))"

text \<open>The labels as the specification words them, and as server.js writes them.\<close>

definition spec_labels :: display_labels where
  "spec_labels =
     \<lparr> street_parking_label = (ascii ''Street parking: '', ascii '' units''),
       fee_label = (ascii ''Fee: '', []),
       parking_units_label = (ascii ''Parking units: '', []),
       street_fee_label = (ascii ''Street fee: '', []),
       charging_label = (ascii ''Charging stations: '', []),
       hours_label = (ascii ''Hours: '', []) \<rparr>"

definition source_labels :: display_labels where
  "source_labels =
     \<lparr> street_parking_label = (lit_street_spaces, lit_unit),
       fee_label = (lit_fee, []),
       parking_units_label = (lit_carpark_spaces, lit_unit),
       street_fee_label = (lit_street_fee, []),
       charging_label = (lit_charging, lit_unit),
       hours_label = (lit_hours, []) \<rparr>"

text \<open>A comparator and built-ins for the sample inputs.\<close>

fun compare_units :: "jsstring \<Rightarrow> jsstring \<Rightarrow> int" where
  "compare_units [] [] = 0"
| "compare_units [] (y # ys) = - 1"
| "compare_units (x # xs) [] = 1"
| "compare_units (x # xs) (y # ys) =
     (if x < y then - 1 else if y < x then 1 else compare_units xs ys)"

definition sample_runtime :: runtime where
  "sample_runtime =
     \<lparr> parseInt = (\<lambda>s. if s = ascii ''50'' then Some 50 else if s = ascii ''20'' then Some 20
                        else if s = ascii ''4'' then Some 4 else if s = ascii ''1'' then Some 1
                        else None),
       parseFloat = (\<lambda>a. if a = Some (ascii ''22.30'') then Finite 22.30
                          else if a = Some (ascii ''114.17'') then Finite 114.17
                          else if a = Some (ascii ''22.31'') then Finite 22.31
                          else if a = Some (ascii ''114.18'') then Finite 114.18
                          else if a = Some (ascii ''0'') then Finite 0
                          else NaN),
       localeCompare = compare_units,
       exponent_notation = (\<lambda>i. ascii ''1e+21'') \<rparr>"

text \<open>The end-to-end scenario of the specification (section 8).\<close>

definition garage_x :: carpark_item where
  "garage_x =
     \<lparr> carpark_name = ascii ''Garage X'',
       carpark_address = ascii ''1 Main Road'',
       carpark_capacity = ascii ''50'',
       item_data_lat = Some (ascii ''22.30''),
       item_data_lng = Some (ascii ''114.17''),
       street_parking_info = None,
       opening_hours = [],
       contact = [],
       facilities_texts = [] \<rparr>"

definition zone_y :: street_parking_zone where
  "zone_y =
     \<lparr> zone_name = ascii ''Zone Y'',
       zone_address = [],
       total_spaces = ascii ''20'',
       zone_data_lat = Some (ascii ''22.31''),
       zone_data_lng = Some (ascii ''114.18''),
       parking_fee = ascii ''$2/hr'' \<rparr>"

definition charger_x :: charger_location where
  "charger_x =
     \<lparr> location_name = ascii ''Garage X'',
       provider_texts = [ascii ''ProviderA''],
       charger_type_texts = [ascii ''TypeB''],
       charger_count = ascii ''4'' \<rparr>"

text \<open>A garage on the equator, and a charger location that lists one provider twice.\<close>

definition garage_equator :: carpark_item where
  "garage_equator = garage_x\<lparr>item_data_lat := Some (ascii ''0'')\<rparr>"

definition charger_twice :: charger_location where
  "charger_twice = charger_x\<lparr>provider_texts := [ascii ''ProviderA'', ascii ''ProviderA'']\<rparr>"

definition charger_x_old :: charger_location where
  "charger_x_old = charger_x\<lparr>charger_count := ascii ''1''\<rparr>"

text \<open>Documents and a world in which both requests succeed at once.\<close>

definition doc_of ::
  "carpark_item node list \<Rightarrow> street_parking_zone node list \<Rightarrow> charger_location node list \<Rightarrow>
   document" where
  "doc_of items zones chargers =
     \<lparr>carpark_items = items, street_parking_zones = zones, charger_locations = chargers\<rparr>"

definition sample_stamp :: jsstring where
  "sample_stamp = ascii ''2024-01-01T02:00:00.000Z''"

definition world_of :: "document \<Rightarrow> document \<Rightarrow> world" where
  "world_of hk01Data kilowattData =
     \<lparr> now = 7200000,
       http_get = (\<lambda>url k. if url = url_hk01 then Resolved hk01Data else Resolved kilowattData),
       math_random = (\<lambda>url k. 1 / 2),
       hk01_rejects_first = True,
       iso_now = (\<lambda>i. sample_stamp),
       create_now = 7200500,
       catch_now = 7200500 \<rparr>"

definition empty_document :: document where
  "empty_document = doc_of [] [] []"

text \<open>Rejections, and a world in which every request of every attempt is rejected.\<close>

definition unavailable :: axios_error where
  "unavailable = \<lparr>message = ascii ''Request failed with status code 503'', status = Some 503\<rparr>"

definition missing :: axios_error where
  "missing = \<lparr>message = ascii ''Request failed with status code 404'', status = Some 404\<rparr>"

definition world_rejecting :: "axios_error \<Rightarrow> world" where
  "world_rejecting e =
     \<lparr> now = 7200000,
       http_get = (\<lambda>url k. Rejected e),
       math_random = (\<lambda>url k. 1 / 2),
       hk01_rejects_first = True,
       iso_now = (\<lambda>i. sample_stamp),
       create_now = 7200500,
       catch_now = 7200500 \<rparr>"

definition world_at :: "int \<Rightarrow> world" where
  "world_at t = (world_rejecting unavailable)\<lparr>now := t\<rparr>"

text \<open>A stored document, one minute and two hours old in the sample worlds.\<close>

definition stored_carpark :: carpark where
  "stored_carpark = carparkData sample_runtime sample_stamp garage_x"

definition recent_snapshot :: snapshot where
  "recent_snapshot = \<lparr>snapshot_data = [stored_carpark], snapshot_lastUpdated = 7140000\<rparr>"

definition old_snapshot :: snapshot where
  "old_snapshot = \<lparr>snapshot_data = replicate 10 stored_carpark, snapshot_lastUpdated = 0\<rparr>"

text \<open>
  What a run shows of its requests and waits, and a request that ended in a failure other
  than not-found.
\<close>

fun requests :: "event list \<Rightarrow> jsstring list" where
  "requests [] = []"
| "requests (HttpGet url # evs) = url # requests evs"
| "requests (ev # evs) = requests evs"

fun delays :: "event list \<Rightarrow> int list" where
  "delays [] = []"
| "delays (Sleep t # evs) = t # delays evs"
| "delays (ev # evs) = delays evs"

definition transient :: "document axios_result \<Rightarrow> bool" where
  "transient r = (case r of Rejected e \<Rightarrow> status e \<noteq> Some 404 | Resolved d \<Rightarrow> False)"


section \<open>Evaluating the sample inputs\<close>

lemmas sample_defs = sample_runtime_def garage_x_def zone_y_def charger_x_def garage_equator_def
  charger_twice_def charger_x_old_def doc_of_def world_of_def

lemmas js_defs = trim_def ascii_def is_ws_def or_zero_def or_default_def

lemma garage_x_data:
  "carparkData sample_runtime stamp garage_x =
     \<lparr> name = ascii ''Garage X'', address = ascii ''1 Main Road'', capacity = 50,
       latitude = Finite 22.30, longitude = Finite 114.17, nearbyBuildings = [],
       chargingStations = 0, chargingProvider = [], chargingType = [], isStreetParking = False,
       streetParking = \<lparr>sp_total = 0, sp_available = 0, sp_fee = []\<rparr>,
       openingHours = Some lit_24_hours, contactNumber = Some lit_not_provided,
       facilities = Some [], lastUpdated = Some stamp, hasCharging = None, displayInfo = None \<rparr>"
  by (simp add: carparkData_def sample_runtime_def garage_x_def js_defs)

lemma garage_x_valid: "validateCarpark (carparkData sample_runtime stamp garage_x)"
  by (simp add: garage_x_data validateCarpark_def truthy_num_def isNaN_def num_ge_def num_le_def
      ascii_def)

lemma merged_garage_x_valid:
  "validateCarpark (merge_carpark rt m (carparkData sample_runtime stamp garage_x))"
  using garage_x_valid [of stamp]
  by (simp add: validateCarpark_def merge_carpark_def Let_def split: option.splits)


lemma charger_twice_info:
  "chargerInfo sample_runtime charger_twice =
     \<lparr>count = 4, providers = ascii ''ProviderA, ProviderA'', types = ascii ''TypeB''\<rparr>"
  by (simp add: chargerInfo_def sample_runtime_def charger_twice_def charger_x_def comma_def js_defs)

lemma charger_twice_key: "trim (location_name charger_twice) = ascii ''Garage X''"
  by (simp add: charger_twice_def charger_x_def js_defs)

lemma url_kilowatt_neq_hk01: "url_kilowatt \<noteq> url_hk01"
  by (simp add: url_kilowatt_def url_hk01_def ascii_def)

section \<open>Validation\<close>

text \<open>
  What validateCarpark accepts: the rule of the specification, less the carparks whose
  latitude or longitude is zero, which the truthiness tests of lines 66-67 turn away.
\<close>

lemma validateCarpark_iff:
  "validateCarpark c \<longleftrightarrow>
     spec_validate c \<and> latitude c \<noteq> Finite 0 \<and> longitude c \<noteq> Finite 0"
  by (cases "latitude c"; cases "longitude c")
     (auto simp: validateCarpark_def spec_validate_def finite_in_range_def truthy_num_def
        isNaN_def num_ge_def num_le_def)

lemma set_insert_by: "set (insert_by cmp x xs) = insert x (set xs)"
  by (induction xs) auto

lemma set_sort_by: "set (sort_by cmp xs) = set xs"
  by (induction xs) (auto simp: sort_by_def set_insert_by)

text \<open>The validated batch holds the accepted carparks and no others.\<close>

lemma validCarparks_set: "set (validCarparks rt cs) = {c \<in> set cs. validateCarpark c}"
  by (auto simp: validCarparks_def set_sort_by)

text \<open>
  Claim C3: validate returns true exactly for a record with a non-empty name, a finite
  latitude in [-90, 90] and a finite longitude in [-180, 180], and a record it rejects is
  absent from the validated batch. The code departs from the first half at a zero
  coordinate: a garage on the equator satisfies the rule, is rejected by validateCarpark,
  and is missing from the batch.
\<close>

theorem validateCarpark_rejects_zero_latitude:
  "spec_validate (carparkData sample_runtime sample_stamp garage_equator) \<and>
   \<not> validateCarpark (carparkData sample_runtime sample_stamp garage_equator) \<and>
   validCarparks sample_runtime [carparkData sample_runtime sample_stamp garage_equator] = []"
  by (simp add: validCarparks_def sort_by_def validateCarpark_def spec_validate_def
      finite_in_range_def truthy_num_def carparkData_def sample_defs js_defs)

section \<open>The retry loop\<close>

lemma requests_append: "requests (xs @ ys) = requests xs @ requests ys"
  by (induction xs rule: requests.induct) auto

lemma delays_append: "delays (xs @ ys) = delays xs @ delays ys"
  by (induction xs rule: delays.induct) auto

lemma requests_onRetry: "requests (scrape_onRetry url e num) = []"
  by (simp add: scrape_onRetry_def)

lemma delays_onRetry: "delays (scrape_onRetry url e num) = []"
  by (simp add: scrape_onRetry_def)

text \<open>Every delay of the policy of scrapeWithRetry lies between its two bounds.\<close>

lemma createTimeout_scrape_bounds:
  assumes "0 \<le> r"
  shows "2000 \<le> createTimeout scrape_options r k \<and> createTimeout scrape_options r k \<le> 5000"
proof -
  have "(1::real) \<le> 2 ^ k" by simp
  moreover have "1 \<le> r + 1" using assms by simp
  ultimately have "1 * 1 \<le> (r + 1) * 2 ^ k"
    by (intro mult_mono) simp_all
  then have "2000 * 1 \<le> 2000 * ((r + 1) * 2 ^ k)"
    by (intro mult_left_mono) simp_all
  also have "2000 * ((r + 1) * 2 ^ k) = (r + 1) * 2000 * 2 ^ k"
    by simp
  finally have "round (2000::real) \<le> round ((r + 1) * 2000 * 2 ^ k)"
    by (intro round_mono) simp
  then show ?thesis
    by (simp add: createTimeout_def scrape_options_def)
qed

lemma timeouts_scrape_length: "length (timeouts scrape_options rnd) = 3"
  by (simp add: timeouts_def scrape_options_def)

lemma timeouts_scrape_bounds:
  assumes "\<forall>k. 0 \<le> rnd k"
  shows "\<forall>t \<in> set (timeouts scrape_options rnd). 2000 \<le> t \<and> t \<le> 5000"
  using assms createTimeout_scrape_bounds by (auto simp: timeouts_def)

lemma sample_timeouts: "timeouts scrape_options (\<lambda>k. 1 / 2) = [3000, 5000, 5000]"
proof -
  have "[0..<3] = [0, 1, 2]"
    by (simp add: upt_rec)
  then show ?thesis
    by (simp add: timeouts_def scrape_options_def createTimeout_def)
qed

text \<open>The surfaced error is one of the errors thrown.\<close>

lemma mainError_loop_mem:
  "mainError_loop es counts mainErr mainCount = Some m \<Longrightarrow> m \<in> set es \<or> mainErr = Some m"
  by (induction es arbitrary: counts mainErr mainCount) (auto simp: Let_def split: if_splits)

lemma mainError_mem: "mainError es = Some m \<Longrightarrow> m \<in> set es"
  using mainError_loop_mem [of es "\<lambda>_. 0" None 0 m] by (simp add: mainError_def)

text \<open>One step of the loop, by what the attempt did.\<close>

lemma retry_loop_returned:
  "fn num = (Returned v, evs) \<Longrightarrow> retry_loop fn onRetry ts num errs = (Inr v, evs)"
  by (cases ts) simp_all

lemma retry_loop_bailed:
  "fn num = (Bailed e, evs) \<Longrightarrow> retry_loop fn onRetry ts num errs = (Inl e, evs)"
  by (cases ts) simp_all

lemma retry_loop_thrown_last:
  "fn num = (Thrown e, evs) \<Longrightarrow>
   retry_loop fn onRetry [] num errs =
     (Inl (case mainError (errs @ [e]) of Some m \<Rightarrow> m | None \<Rightarrow> e), evs)"
  by (simp split: option.splits)

lemma retry_loop_thrown_again:
  "fn num = (Thrown e, evs) \<Longrightarrow>
   retry_loop fn onRetry (t # ts) num errs =
     (fst (retry_loop fn onRetry ts (Suc num) (errs @ [e])),
      evs @ onRetry e num @ [Sleep t] @ snd (retry_loop fn onRetry ts (Suc num) (errs @ [e])))"
  by (simp split: prod.splits)

declare retry_loop.simps [simp del]

lemma scrape_attempt_cases:
  obtains (returned) d where "scrape_attempt w url num = (Returned d, [HttpGet url])"
      and "http_get w url num = Resolved d"
  | (bailed) e where "scrape_attempt w url num = (Bailed e, [HttpGet url, LogFetchError url (message e)])"
      and "http_get w url num = Rejected e" and "status e = Some 404"
  | (thrown) e where "scrape_attempt w url num = (Thrown e, [HttpGet url, LogFetchError url (message e)])"
      and "http_get w url num = Rejected e" and "status e \<noteq> Some 404"
  by (cases "http_get w url num") (auto simp: scrape_attempt_def)

lemma retry_loop_requests_le:
  "length (requests (snd (retry_loop (scrape_attempt w url) (scrape_onRetry url) ts num errs)))
     \<le> Suc (length ts)"
proof (induction ts arbitrary: num errs)
  case Nil
  show ?case
    by (cases rule: scrape_attempt_cases [of w url num])
       (simp_all add: retry_loop_returned retry_loop_bailed retry_loop_thrown_last)
next
  case (Cons t ts)
  show ?case
  proof (cases rule: scrape_attempt_cases [of w url num])
    case (thrown e)
    with Cons [of "Suc num" "errs @ [e]"] show ?thesis
      by (simp add: retry_loop_thrown_again requests_append requests_onRetry)
  qed (simp_all add: retry_loop_returned retry_loop_bailed)
qed

lemma retry_loop_delays_subset:
  "set (delays (snd (retry_loop (scrape_attempt w url) (scrape_onRetry url) ts num errs))) \<subseteq> set ts"
proof (induction ts arbitrary: num errs)
  case Nil
  show ?case
    by (cases rule: scrape_attempt_cases [of w url num])
       (simp_all add: retry_loop_returned retry_loop_bailed retry_loop_thrown_last)
next
  case (Cons t ts)
  show ?case
  proof (cases rule: scrape_attempt_cases [of w url num])
    case (thrown e)
    with Cons [of "Suc num" "errs @ [e]"] show ?thesis
      by (auto simp: retry_loop_thrown_again delays_append delays_onRetry)
  qed (simp_all add: retry_loop_returned retry_loop_bailed)
qed

text \<open>While the first \<open>j\<close> attempts fail with another status, one more attempt is made.\<close>

lemma retry_loop_requests_ge:
  "j \<le> length ts \<Longrightarrow> (\<forall>k<j. transient (http_get w url (num + k))) \<Longrightarrow>
   Suc j \<le> length (requests (snd (retry_loop (scrape_attempt w url) (scrape_onRetry url) ts num errs)))"
proof (induction ts arbitrary: j num errs)
  case Nil
  then show ?case
    by (cases rule: scrape_attempt_cases [of w url num])
       (simp_all add: retry_loop_returned retry_loop_bailed retry_loop_thrown_last)
next
  case (Cons t ts)
  show ?case
  proof (cases j)
    case 0
    then show ?thesis
      by (cases rule: scrape_attempt_cases [of w url num])
         (simp_all add: retry_loop_returned retry_loop_bailed retry_loop_thrown_again requests_append requests_onRetry)
  next
    case (Suc j')
    with Cons.prems have first: "transient (http_get w url num)"
      and rest: "\<forall>k<j'. transient (http_get w url (Suc num + k))" and len: "j' \<le> length ts"
      by (auto dest: spec [of _ 0] spec [of _ "Suc _"])
    show ?thesis
    proof (cases rule: scrape_attempt_cases [of w url num])
      case (thrown e)
      with Cons.IH [OF len rest, of "errs @ [e]"] Suc show ?thesis
        by (simp add: retry_loop_thrown_again requests_append requests_onRetry)
    qed (use first in \<open>simp_all add: transient_def\<close>)
  qed
qed

lemma retry_loop_not_found:
  "j \<le> length ts \<Longrightarrow> (\<forall>k<j. transient (http_get w url (num + k))) \<Longrightarrow>
   http_get w url (num + j) = Rejected e \<Longrightarrow> status e = Some 404 \<Longrightarrow>
   fst (retry_loop (scrape_attempt w url) (scrape_onRetry url) ts num errs) = Inl e \<and>
   length (requests (snd (retry_loop (scrape_attempt w url) (scrape_onRetry url) ts num errs))) = Suc j"
proof (induction ts arbitrary: j num errs)
  case Nil
  then show ?case
    by (cases rule: scrape_attempt_cases [of w url num])
       (simp_all add: retry_loop_returned retry_loop_bailed retry_loop_thrown_last)
next
  case (Cons t ts)
  show ?case
  proof (cases j)
    case 0
    with Cons.prems show ?thesis
      by (cases rule: scrape_attempt_cases [of w url num])
         (simp_all add: retry_loop_returned retry_loop_bailed retry_loop_thrown_again requests_append requests_onRetry)
  next
    case (Suc j')
    with Cons.prems have first: "transient (http_get w url num)"
      and rest: "\<forall>k<j'. transient (http_get w url (Suc num + k))" and len: "j' \<le> length ts"
      and last: "http_get w url (Suc num + j') = Rejected e"
      by (auto dest: spec [of _ 0] spec [of _ "Suc _"])
    show ?thesis
    proof (cases rule: scrape_attempt_cases [of w url num])
      case (thrown e')
      with Cons.IH [OF len rest last Cons.prems(4), of "errs @ [e']"] Suc show ?thesis
        by (simp add: retry_loop_thrown_again requests_append requests_onRetry)
    qed (use first in \<open>simp_all add: transient_def\<close>)
  qed
qed

lemma retry_loop_exhausted:
  "(\<forall>k\<le>length ts. transient (http_get w url (num + k))) \<Longrightarrow>
   \<exists>m. fst (retry_loop (scrape_attempt w url) (scrape_onRetry url) ts num errs) = Inl m \<and>
       (m \<in> set errs \<or> (\<exists>k\<le>length ts. http_get w url (num + k) = Rejected m)) \<and>
       requests (snd (retry_loop (scrape_attempt w url) (scrape_onRetry url) ts num errs)) =
         replicate (Suc (length ts)) url \<and>
       delays (snd (retry_loop (scrape_attempt w url) (scrape_onRetry url) ts num errs)) = ts"
proof (induction ts arbitrary: num errs)
  case Nil
  then have first: "transient (http_get w url num)" by simp
  show ?case
  proof (cases rule: scrape_attempt_cases [of w url num])
    case (thrown e)
    then show ?thesis
      using mainError_mem [of "errs @ [e]"]
      by (auto simp: retry_loop_thrown_last split: option.splits)
  qed (use first in \<open>simp_all add: transient_def\<close>)
next
  case (Cons t ts)
  then have first: "transient (http_get w url num)"
    and rest: "\<forall>k\<le>length ts. transient (http_get w url (Suc num + k))"
    by (auto dest: spec [of _ 0] spec [of _ "Suc _"])
  show ?case
  proof (cases rule: scrape_attempt_cases [of w url num])
    case (thrown e)
    from Cons.IH [OF rest, of "errs @ [e]"] obtain m where
      m: "fst (retry_loop (scrape_attempt w url) (scrape_onRetry url) ts (Suc num) (errs @ [e])) = Inl m"
      and origin: "m \<in> set (errs @ [e]) \<or> (\<exists>k\<le>length ts. http_get w url (Suc num + k) = Rejected m)"
      and reqs: "requests (snd (retry_loop (scrape_attempt w url) (scrape_onRetry url) ts (Suc num) (errs @ [e]))) =
         replicate (Suc (length ts)) url"
      and dels: "delays (snd (retry_loop (scrape_attempt w url) (scrape_onRetry url) ts (Suc num) (errs @ [e]))) = ts"
      by blast
    from origin thrown have "m \<in> set errs \<or> (\<exists>k\<le>length (t # ts). http_get w url (num + k) = Rejected m)"
    proof (elim disjE exE conjE)
      assume "m \<in> set (errs @ [e])"
      then consider "m \<in> set errs" | "m = e" by auto
      then show ?thesis
      proof cases
        case 2
        with thrown have "http_get w url (num + 0) = Rejected m" by simp
        then show ?thesis by blast
      qed simp
    next
      fix k assume "k \<le> length ts" "http_get w url (Suc num + k) = Rejected m"
      then have "Suc k \<le> length (t # ts)" "http_get w url (num + Suc k) = Rejected m" by simp_all
      then show ?thesis by blast
    qed
    with m reqs dels thrown show ?thesis
      by (simp add: retry_loop_thrown_again requests_append delays_append requests_onRetry delays_onRetry)
  qed (use first in \<open>simp_all add: transient_def\<close>)
qed


lemma scrapeWithRetry_unavailable:
  "fst (scrapeWithRetry (world_rejecting unavailable) url) = Inl unavailable \<and>
   requests (snd (scrapeWithRetry (world_rejecting unavailable) url)) = [url, url, url, url] \<and>
   delays (snd (scrapeWithRetry (world_rejecting unavailable) url)) = [3000, 5000, 5000]"
proof -
  let ?w = "world_rejecting unavailable"
  have ts: "timeouts scrape_options (math_random ?w url) = [3000, 5000, 5000]"
    using sample_timeouts by (simp add: world_rejecting_def)
  have "\<forall>k\<le>length [3000, 5000, 5000::int]. transient (http_get ?w url (1 + k))"
    by (simp add: world_rejecting_def transient_def unavailable_def)
  from retry_loop_exhausted [OF this, of "[]"] obtain m k where
    m: "fst (retry_loop (scrape_attempt ?w url) (scrape_onRetry url) [3000, 5000, 5000] 1 []) = Inl m"
    and k: "http_get ?w url (1 + k) = Rejected m"
    and reqs: "requests (snd (retry_loop (scrape_attempt ?w url) (scrape_onRetry url)
        [3000, 5000, 5000] 1 [])) = replicate (Suc (length [3000, 5000, 5000::int])) url"
    and dels: "delays (snd (retry_loop (scrape_attempt ?w url) (scrape_onRetry url)
        [3000, 5000, 5000] 1 [])) = [3000, 5000, 5000]"
    by auto
  from k have "m = unavailable"
    by (simp add: world_rejecting_def)
  with m reqs dels show ?thesis
    by (simp add: scrapeWithRetry_def retry_def ts numeral_eq_Suc)
qed

text \<open>
  Claim C4: a response with status 404 fails permanently at once, with no further attempt;
  every other failure is retried, with \<open>retries = 3\<close>, so at most 4 attempts in all, the
  waits between attempts lying between 2000 ms and 5000 ms; when the attempts are used up,
  a transient error is surfaced to the caller. Attempts are counted from 1, and the requests
  and waits are read off the events of the call.
\<close>

theorem scrapeWithRetry_policy:
  assumes random: "\<forall>k. 0 \<le> math_random w url k \<and> math_random w url k < 1"
  shows
    "(\<forall>n e. 1 \<le> n \<and> n \<le> 4 \<and> (\<forall>k. 1 \<le> k \<and> k < n \<longrightarrow> transient (http_get w url k)) \<and>
        http_get w url n = Rejected e \<and> status e = Some 404 \<longrightarrow>
        fst (scrapeWithRetry w url) = Inl e \<and>
        length (requests (snd (scrapeWithRetry w url))) = n) \<and>
     (\<forall>n. 1 \<le> n \<and> n \<le> 4 \<and> (\<forall>k. 1 \<le> k \<and> k < n \<longrightarrow> transient (http_get w url k)) \<longrightarrow>
        n \<le> length (requests (snd (scrapeWithRetry w url)))) \<and>
     length (requests (snd (scrapeWithRetry w url))) \<le> 4 \<and>
     ((\<forall>k. 1 \<le> k \<and> k \<le> 4 \<longrightarrow> transient (http_get w url k)) \<longrightarrow>
        length (requests (snd (scrapeWithRetry w url))) = 4 \<and>
        length (delays (snd (scrapeWithRetry w url))) = 3 \<and>
        (\<exists>m k. 1 \<le> k \<and> k \<le> 4 \<and> http_get w url k = Rejected m \<and> status m \<noteq> Some 404 \<and>
           fst (scrapeWithRetry w url) = Inl m)) \<and>
     (\<forall>t \<in> set (delays (snd (scrapeWithRetry w url))). 2000 \<le> t \<and> t \<le> 5000)"
proof -
  let ?ts = "timeouts scrape_options (math_random w url)"
  let ?run = "retry_loop (scrape_attempt w url) (scrape_onRetry url) ?ts 1 []"
  have run: "scrapeWithRetry w url = ?run"
    by (simp add: scrapeWithRetry_def retry_def)
  have len: "length ?ts = 3"
    by (rule timeouts_scrape_length)
  have bail: "fst ?run = Inl e \<and> length (requests (snd ?run)) = n"
    if "1 \<le> n" "n \<le> 4" "\<forall>k. 1 \<le> k \<and> k < n \<longrightarrow> transient (http_get w url k)"
      "http_get w url n = Rejected e" "status e = Some 404" for n e
  proof -
    from that have "n - 1 \<le> length ?ts" "\<forall>k<n - 1. transient (http_get w url (1 + k))"
      "http_get w url (1 + (n - 1)) = Rejected e"
      by (simp_all add: len)
    from retry_loop_not_found [OF this that(5)] that(1) show ?thesis by simp
  qed
  have again: "n \<le> length (requests (snd ?run))"
    if "1 \<le> n" "n \<le> 4" "\<forall>k. 1 \<le> k \<and> k < n \<longrightarrow> transient (http_get w url k)" for n
  proof -
    from that have "n - 1 \<le> length ?ts" "\<forall>k<n - 1. transient (http_get w url (1 + k))"
      by (simp_all add: len)
    from retry_loop_requests_ge [OF this] that(1) show ?thesis by simp
  qed
  have most: "length (requests (snd ?run)) \<le> 4"
    using retry_loop_requests_le [of w url ?ts 1 "[]"] by (simp add: len)
  have exhausted: "length (requests (snd ?run)) = 4 \<and> length (delays (snd ?run)) = 3 \<and>
      (\<exists>m k. 1 \<le> k \<and> k \<le> 4 \<and> http_get w url k = Rejected m \<and> status m \<noteq> Some 404 \<and>
         fst ?run = Inl m)"
    if all: "\<forall>k. 1 \<le> k \<and> k \<le> 4 \<longrightarrow> transient (http_get w url k)"
  proof -
    from all have "\<forall>k\<le>length ?ts. transient (http_get w url (1 + k))"
      by (simp add: len)
    from retry_loop_exhausted [OF this, of "[]"] obtain m k where
      m: "fst ?run = Inl m" and k: "k \<le> 3" "http_get w url (1 + k) = Rejected m"
      and reqs: "requests (snd ?run) = replicate (Suc (length ?ts)) url"
      and dels: "delays (snd ?run) = ?ts"
      by (auto simp: len)
    from k have "1 \<le> 1 + k \<and> 1 + k \<le> 4" by simp
    with all have "transient (http_get w url (1 + k))" by blast
    with k have "status m \<noteq> Some 404" by (simp add: transient_def)
    with m k have "\<exists>m k. 1 \<le> k \<and> k \<le> 4 \<and> http_get w url k = Rejected m \<and> status m \<noteq> Some 404 \<and>
         fst ?run = Inl m"
      by (intro exI [of _ m] exI [of _ "1 + k"]) simp
    with reqs dels show ?thesis by (simp add: len)
  qed
  have bounds: "\<forall>t \<in> set (delays (snd ?run)). 2000 \<le> t \<and> t \<le> 5000"
    using retry_loop_delays_subset [of w url ?ts 1 "[]"] timeouts_scrape_bounds [of "math_random w url"]
      random by blast
  show ?thesis
    unfolding run using bail again most exhausted bounds by blast
qed

theorem scrapeWithRetry_policy_witness:
  "(\<forall>k. 0 \<le> math_random (world_rejecting unavailable) url_hk01 k \<and>
        math_random (world_rejecting unavailable) url_hk01 k < 1) \<and>
   fst (scrapeWithRetry (world_rejecting unavailable) url_hk01) = Inl unavailable \<and>
   length (requests (snd (scrapeWithRetry (world_rejecting unavailable) url_hk01))) = 4 \<and>
   length (delays (snd (scrapeWithRetry (world_rejecting unavailable) url_hk01))) = 3 \<and>
   delays (snd (scrapeWithRetry (world_rejecting unavailable) url_hk01)) = [3000, 5000, 5000] \<and>
   (\<forall>k. 0 \<le> math_random (world_rejecting missing) url_hk01 k \<and>
        math_random (world_rejecting missing) url_hk01 k < 1) \<and>
   fst (scrapeWithRetry (world_rejecting missing) url_hk01) = Inl missing \<and>
   length (requests (snd (scrapeWithRetry (world_rejecting missing) url_hk01))) = 1"
proof -
  have r1: "\<forall>k. 0 \<le> math_random (world_rejecting unavailable) url_hk01 k \<and>
        math_random (world_rejecting unavailable) url_hk01 k < 1"
    by (simp add: world_rejecting_def)
  have r2: "\<forall>k. 0 \<le> math_random (world_rejecting missing) url_hk01 k \<and>
        math_random (world_rejecting missing) url_hk01 k < 1"
    by (simp add: world_rejecting_def)
  have t: "\<forall>k. 1 \<le> k \<and> k \<le> 4 \<longrightarrow> transient (http_get (world_rejecting unavailable) url_hk01 k)"
    by (simp add: world_rejecting_def transient_def unavailable_def)
  have g: "http_get (world_rejecting unavailable) url_hk01 k = Rejected m \<Longrightarrow> m = unavailable" for k m
    by (simp add: world_rejecting_def)
  from scrapeWithRetry_policy [OF r1] t g
  have a: "fst (scrapeWithRetry (world_rejecting unavailable) url_hk01) = Inl unavailable"
    and b: "length (requests (snd (scrapeWithRetry (world_rejecting unavailable) url_hk01))) = 4"
    and c: "length (delays (snd (scrapeWithRetry (world_rejecting unavailable) url_hk01))) = 3"
    by metis+
  have n: "(1::nat) \<le> 1 \<and> (1::nat) \<le> 4 \<and>
      (\<forall>k. 1 \<le> k \<and> k < 1 \<longrightarrow> transient (http_get (world_rejecting missing) url_hk01 k)) \<and>
      http_get (world_rejecting missing) url_hk01 1 = Rejected missing \<and> status missing = Some 404"
    by (simp add: world_rejecting_def missing_def)
  from scrapeWithRetry_policy [OF r2] n
  have d: "fst (scrapeWithRetry (world_rejecting missing) url_hk01) = Inl missing"
    and e: "length (requests (snd (scrapeWithRetry (world_rejecting missing) url_hk01))) = 1"
    by blast+
  have c': "delays (snd (scrapeWithRetry (world_rejecting unavailable) url_hk01)) = [3000, 5000, 5000]"
    using scrapeWithRetry_unavailable [of url_hk01] by simp
  show ?thesis
    by (intro conjI r1 r2 a b c c' d e)
qed

section \<open>Extraction\<close>

lemma parse_zones_nodes:
  "parse_street_parking_zones rt (map Node zs) = Inr (map (zoneData rt) zs)"
  by (induction zs) auto

text \<open>
  Claim C7: every street-parking-zone element of source A becomes a carpark with
  \<open>isStreetParking = true\<close>, the fixed zone marker followed by the zone name as its name,
  capacity and \<open>streetParking.total\<close> equal to the parsed total spaces,
  \<open>streetParking.available\<close> equal to \<open>streetParking.total\<close>, and zero or empty charging
  fields.
\<close>

theorem street_zone_materializes:
  "parse_street_parking_zones rt (map Node zs) = Inr (map (zoneData rt) zs) \<and>
   isStreetParking (zoneData rt z) \<and>
   name (zoneData rt z) = zone_marker @ trim (zone_name z) \<and>
   capacity (zoneData rt z) = or_zero (parseInt rt (total_spaces z)) \<and>
   sp_total (streetParking (zoneData rt z)) = or_zero (parseInt rt (total_spaces z)) \<and>
   sp_available (streetParking (zoneData rt z)) = sp_total (streetParking (zoneData rt z)) \<and>
   chargingStations (zoneData rt z) = 0 \<and>
   chargingProvider (zoneData rt z) = [] \<and>
   chargingType (zoneData rt z) = []"
  by (simp add: parse_zones_nodes zoneData_def Let_def)

text \<open>
  The handler of the carpark-item callback (lines 191-193): were a call of the callback to
  throw, the carparks extracted would be, with a clock that does not move, those of the
  list without that element. The callbacks of the other two loops have no handler.
\<close>

lemma parse_carpark_items_skips:
  assumes "\<And>i. iso_now w i = t"
  shows "fst (parse_carpark_items rt w i (xs @ Throws m # ys)) =
         fst (parse_carpark_items rt w j (xs @ ys))"
proof -
  have same: "fst (parse_carpark_items rt w i zs) = fst (parse_carpark_items rt w j zs)" for i j zs
  proof (induction zs arbitrary: i j)
    case Nil
    then show ?case by simp
  next
    case (Cons z zs)
    from Cons [of "Suc i" "Suc j"] show ?case
      by (cases z) (auto simp: assms Let_def split: prod.splits)
  qed
  show ?thesis
  proof (induction xs arbitrary: i j)
    case Nil
    from same [of "Suc i" ys j] show ?case by (auto split: prod.splits)
  next
    case (Cons x xs)
    from Cons [of "Suc i" "Suc j"] show ?case
      by (cases x) (auto simp: assms Let_def split: prod.splits)
  qed
qed

lemma scrapeWithRetry_resolved:
  "http_get w url 1 = Resolved d \<Longrightarrow> scrapeWithRetry w url = (Inr d, [HttpGet url])"
  by (simp add: scrapeWithRetry_def retry_def retry_loop_returned scrape_attempt_def)

lemma fetch_both_world_of:
  "fetch_both (world_of a b) = (Inr (a, b), [HttpGet url_hk01, HttpGet url_kilowatt])"
proof -
  have "scrapeWithRetry (world_of a b) url_hk01 = (Inr a, [HttpGet url_hk01])"
    and "scrapeWithRetry (world_of a b) url_kilowatt = (Inr b, [HttpGet url_kilowatt])"
    using url_kilowatt_neq_hk01 by (simp_all add: scrapeWithRetry_resolved world_of_def)
  then show ?thesis by (simp add: fetch_both_def)
qed

section \<open>Merge\<close>






text \<open>
  Claim C9: the provider and type fields of a matched carpark are the comma-join of the
  distinct provider names and connector types. The code joins the texts as they stand: a
  provider listed twice appears twice.
\<close>

theorem duplicate_provider_kept:
  "map_sum id (map chargingProvider)
     (fst (process_documents sample_runtime (world_of empty_document empty_document)
        (doc_of [Node garage_x] [] [Node charger_twice]) empty_document)) =
   Inr [ascii ''ProviderA, ProviderA''] \<and>
   remdups (map trim (provider_texts charger_twice)) = [ascii ''ProviderA'']"
proof -
  have "map_sum id (map chargingProvider)
     (fst (process_documents sample_runtime (world_of empty_document empty_document)
        (doc_of [Node garage_x] [] [Node charger_twice]) empty_document)) =
   Inr [ascii ''ProviderA, ProviderA'']"
    by (simp add: process_documents_def doc_of_def garage_x_valid validCarparks_def sort_by_def
        merged_garage_x_valid world_of_def charger_twice_info charger_twice_key)
       (simp add: merge_carpark_def garage_x_data Let_def)
  moreover have "remdups (map trim (provider_texts charger_twice)) = [ascii ''ProviderA'']"
    by (simp add: charger_twice_def charger_x_def js_defs)
  ultimately show ?thesis by simp
qed

text \<open>
  The charger loop itself keeps, for a name that occurs more than once among the elements
  it visits, the values of the last such element.
\<close>

lemma build_chargerMap_nodes:
  "build_chargerMap rt (map Node es) m =
     Inr (foldl (\<lambda>m e. m(trim (location_name e) \<mapsto> chargerInfo rt e)) m es)"
  by (induction es arbitrary: m) auto

lemma build_chargerMap_last_wins:
  assumes "\<forall>e' \<in> set later. trim (location_name e') \<noteq> trim (location_name e)"
  shows "build_chargerMap rt (map Node (earlier @ e # later)) m = Inr m' \<Longrightarrow>
         m' (trim (location_name e)) = Some (chargerInfo rt e)"
proof -
  have keep: "foldl (\<lambda>m e. m(trim (location_name e) \<mapsto> chargerInfo rt e)) m0 later k = m0 k"
    if "\<forall>e' \<in> set later. trim (location_name e') \<noteq> k" for m0 k
    using that by (induction later arbitrary: m0) auto
  assume "build_chargerMap rt (map Node (earlier @ e # later)) m = Inr m'"
  then have "m' = foldl (\<lambda>m e. m(trim (location_name e) \<mapsto> chargerInfo rt e)) m (earlier @ e # later)"
    by (simp only: build_chargerMap_nodes sum.inject)
  with keep [OF assms] show ?thesis by simp
qed

text \<open>
  Claim C10: when the charger listing holds several charger-location elements with the same
  trimmed name, the aggregate table keeps the last one's count, providers and types. The
  loop of lines 227-238 queries \<open>$\<close>, the parking listing; the charger listing is loaded
  as \<open>$k\<close> and never read. With two elements for Garage X in the charger listing and
  none in the parking listing, the table has no entry and the garage is left without
  charging data.
\<close>

theorem charger_listing_not_read:
  "map_sum id (map (\<lambda>c. (hasCharging c, chargingStations c)))
     (fst (process_documents sample_runtime (world_of empty_document empty_document)
        (doc_of [Node garage_x] [] [])
        (doc_of [] [] [Node charger_x_old, Node charger_x]))) =
   Inr [(Some False, 0)]"
  by (simp add: process_documents_def doc_of_def garage_x_valid validCarparks_def sort_by_def
      merged_garage_x_valid world_of_def)
     (simp add: merge_carpark_def garage_x_data Let_def)

section \<open>Display information\<close>

lemma formatDisplayInfo_spec: "formatDisplayInfo rt c = spec_displayInfo source_labels rt c"
  by (simp add: formatDisplayInfo_def spec_displayInfo_def source_labels_def part_def push_def
      truthy_str_def bar_def ascii_def Let_def split: option.splits)

lemma spec_displayInfo_update: "spec_displayInfo L rt (c\<lparr>displayInfo := d\<rparr>) = spec_displayInfo L rt c"
  by (simp add: spec_displayInfo_def)

text \<open>
  Claim C6, as the specification words it: the summary of a merged carpark is the
  \<open>" | "\<close>-join of "Street parking: n units", "Fee: f", "Parking units: n",
  "Street fee: f", "Charging stations: n" and "Hours: h" in the order and under the
  conditions of 4.3. The street zone of the sample scenario shows that the texts of the
  code are not these.
\<close>

theorem displayInfo_spec_labels_counterexample:
  "displayInfo (merge_carpark sample_runtime Map.empty (zoneData sample_runtime zone_y)) \<noteq>
     Some (spec_displayInfo spec_labels sample_runtime
       (merge_carpark sample_runtime Map.empty (zoneData sample_runtime zone_y)))"
  by (simp add: merge_carpark_def formatDisplayInfo_def spec_displayInfo_def spec_labels_def part_def
      push_def truthy_str_def zoneData_def lit_street_spaces_def sample_defs js_defs Let_def)

text \<open>
  Claim C6, amended: the summary of every merged carpark is the \<open>" | "\<close>-join of the parts
  of 4.3, in that order and under those conditions, each written with the literal of
  server.js (lines 294-313) and, for the three counts, with its closing literal.
\<close>

theorem displayInfo_source_labels:
  "displayInfo (merge_carpark rt chargerMap c) =
     Some (spec_displayInfo source_labels rt (merge_carpark rt chargerMap c))"
  by (simp add: merge_carpark_def formatDisplayInfo_spec spec_displayInfo_update Let_def
      split: option.splits)

section \<open>Cache\<close>

lemma scrapeWithRetry_first_request: "\<exists>evs. snd (scrapeWithRetry w url) = HttpGet url # evs"
proof -
  let ?ts = "timeouts scrape_options (math_random w url)"
  show ?thesis
  proof (cases rule: scrape_attempt_cases [of w url 1])
    case (thrown e)
    then show ?thesis
      by (cases ?ts)
         (simp_all add: scrapeWithRetry_def retry_def retry_loop_thrown_last retry_loop_thrown_again)
  qed (simp_all add: scrapeWithRetry_def retry_def retry_loop_returned retry_loop_bailed)
qed

lemma run_pipeline_first_request: "\<exists>evs. snd (run_pipeline rt w) = HttpGet url_hk01 # evs"
proof -
  obtain evs where "snd (scrapeWithRetry w url_hk01) = HttpGet url_hk01 # evs"
    using scrapeWithRetry_first_request by blast
  then show ?thesis
    by (auto simp: run_pipeline_def fetch_both_def split: prod.splits sum.splits)
qed

lemma scrape_fresh_requests: "url_hk01 \<in> set (requests (effects (scrape_fresh rt w store)))"
proof -
  obtain evs where "snd (run_pipeline rt w) = HttpGet url_hk01 # evs"
    using run_pipeline_first_request by blast
  then show ?thesis
    by (auto simp: scrape_fresh_def Let_def requests_append split: prod.splits sum.splits option.splits)
qed

lemma run_pipeline_fetch_failed:
  assumes "(\<exists>a. fst (scrapeWithRetry w url_hk01) = Inl a) \<or>
           (\<exists>a. fst (scrapeWithRetry w url_kilowatt) = Inl a)"
  shows "\<exists>a. fst (run_pipeline rt w) = Inl (FetchError a)"
  using assms
  by (auto simp: run_pipeline_def fetch_both_def split: prod.splits sum.splits)

lemma run_pipeline_no_valid_data:
  assumes "fetch_both w = (Inr (hk01Data, kilowattData), evs)"
    and "fst (process_documents rt w hk01Data kilowattData) = Inl NoValidData"
  shows "fst (run_pipeline rt w) = Inl NoValidData"
  using assms by (auto simp: run_pipeline_def split: prod.splits)

lemma scrape_fresh_failed:
  assumes "fst (run_pipeline rt w) = Inl e"
  shows "(\<forall>lastCache. findOne_latest store = Some lastCache \<longrightarrow>
            returned (scrape_fresh rt w store) = Inr (snapshot_data lastCache)) \<and>
         collection (scrape_fresh rt w store) = store \<and>
         (findOne_latest store = None \<longrightarrow> returned (scrape_fresh rt w store) = Inl e)"
  using assms by (auto simp: scrape_fresh_def split: prod.splits sum.splits option.splits)

text \<open>
  The loaded documents end in \<open>NoValidData\<close> exactly when both loops without a handler
  come through and the validated batch is empty.
\<close>

lemma process_documents_no_valid_data:
  "fst (process_documents rt w hk01Data kilowattData) = Inl NoValidData \<longleftrightarrow>
     (\<exists>zones chargerMap.
        parse_street_parking_zones rt (street_parking_zones hk01Data) = Inr zones \<and>
        build_chargerMap rt (charger_locations hk01Data) Map.empty = Inr chargerMap \<and>
        validCarparks rt
          (map (merge_carpark rt chargerMap)
             (fst (parse_carpark_items rt w 0 (carpark_items hk01Data)) @ zones)) = [])"
proof -
  have zones: "parse_street_parking_zones rt zs \<noteq> Inl NoValidData" for zs
  proof (induction zs)
    case Nil
    show ?case by simp
  next
    case (Cons z zs)
    then show ?case by (cases z) (auto split: sum.splits)
  qed
  have chargers: "build_chargerMap rt ls m \<noteq> Inl NoValidData" for ls m
  proof (induction ls arbitrary: m)
    case Nil
    show ?case by simp
  next
    case (Cons l ls)
    then show ?case by (cases l) auto
  qed
  show ?thesis
    using zones [of "street_parking_zones hk01Data"]
      chargers [of "charger_locations hk01Data" Map.empty]
    by (auto simp: process_documents_def Let_def split: prod.splits sum.splits)
qed

lemma process_empty_document:
  "process_documents rt w empty_document d = (Inl NoValidData, [])"
  by (simp add: process_documents_def empty_document_def doc_of_def validCarparks_def sort_by_def)

text \<open>
  Claim C1: when a run fails as a whole, because the retries of a fetch are exhausted or the
  validated batch is empty, scrapeCarparks returns the records of the latest stored
  document unchanged if there is one, whatever its age, and writes nothing; with no stored
  document the failure goes to the caller. A fetch fails when scrapeWithRetry rejects; the
  batch is empty when the documents end in \<open>NoValidData\<close>.
\<close>

theorem fallback_to_last_snapshot:
  assumes failed:
    "(\<exists>a. fst (scrapeWithRetry w url_hk01) = Inl a) \<or>
     (\<exists>a. fst (scrapeWithRetry w url_kilowatt) = Inl a) \<or>
     (\<exists>hk01Data kilowattData evs.
        fetch_both w = (Inr (hk01Data, kilowattData), evs) \<and>
        fst (process_documents rt w hk01Data kilowattData) = Inl NoValidData)"
  shows
    "(\<forall>lastCache. findOne_latest store = Some lastCache \<longrightarrow>
        returned (scrapeCarparks rt w store) = Inr (snapshot_data lastCache) \<and>
        collection (scrapeCarparks rt w store) = store) \<and>
     (findOne_latest store = None \<longrightarrow>
        (\<exists>e. fst (run_pipeline rt w) = Inl e \<and> returned (scrapeCarparks rt w store) = Inl e))"
proof -
  from failed obtain e where e: "fst (run_pipeline rt w) = Inl e"
    using run_pipeline_fetch_failed [of w rt] run_pipeline_no_valid_data [of w _ _ _ rt] by blast
  from scrape_fresh_failed [OF e, of store] show ?thesis
    using e by (auto simp: scrapeCarparks_def)
qed

theorem fallback_to_last_snapshot_witness:
  "(\<exists>hk01Data kilowattData evs.
      fetch_both (world_of empty_document empty_document) = (Inr (hk01Data, kilowattData), evs) \<and>
      fst (process_documents sample_runtime (world_of empty_document empty_document)
             hk01Data kilowattData) = Inl NoValidData) \<and>
   findOne_latest [old_snapshot] = Some old_snapshot \<and>
   returned (scrapeCarparks sample_runtime (world_of empty_document empty_document) [old_snapshot]) =
     Inr (replicate 10 stored_carpark) \<and>
   collection (scrapeCarparks sample_runtime (world_of empty_document empty_document) [old_snapshot]) =
     [old_snapshot] \<and>
   findOne_latest [] = None \<and>
   returned (scrapeCarparks sample_runtime (world_of empty_document empty_document) []) =
     Inl NoValidData \<and>
   (\<exists>a. fst (scrapeWithRetry (world_rejecting unavailable) url_hk01) = Inl a) \<and>
   returned (scrapeCarparks sample_runtime (world_rejecting unavailable) [old_snapshot]) =
     Inr (replicate 10 stored_carpark)"
proof -
  let ?w = "world_of empty_document empty_document"
  have empty: "\<exists>hk01Data kilowattData evs.
      fetch_both ?w = (Inr (hk01Data, kilowattData), evs) \<and>
      fst (process_documents sample_runtime ?w hk01Data kilowattData) = Inl NoValidData"
    by (simp add: fetch_both_world_of process_empty_document)
  then have failed: "(\<exists>a. fst (scrapeWithRetry ?w url_hk01) = Inl a) \<or>
     (\<exists>a. fst (scrapeWithRetry ?w url_kilowatt) = Inl a) \<or>
     (\<exists>hk01Data kilowattData evs.
        fetch_both ?w = (Inr (hk01Data, kilowattData), evs) \<and>
        fst (process_documents sample_runtime ?w hk01Data kilowattData) = Inl NoValidData)"
    by blast
  have some: "findOne_latest [old_snapshot] = Some old_snapshot"
    and none: "findOne_latest [] = None"
    by simp_all
  have run: "fst (run_pipeline sample_runtime ?w) = Inl NoValidData"
    by (simp add: run_pipeline_def fetch_both_world_of process_empty_document)
  from fallback_to_last_snapshot [OF failed, of "[old_snapshot]"] some
  have a: "returned (scrapeCarparks sample_runtime ?w [old_snapshot]) = Inr (replicate 10 stored_carpark)"
    and b: "collection (scrapeCarparks sample_runtime ?w [old_snapshot]) = [old_snapshot]"
    by (simp_all add: old_snapshot_def)
  from fallback_to_last_snapshot [OF failed, of "[]"] none run
  have c: "returned (scrapeCarparks sample_runtime ?w []) = Inl NoValidData"
    by auto
  have exhausted: "\<exists>a. fst (scrapeWithRetry (world_rejecting unavailable) url_hk01) = Inl a"
    using scrapeWithRetry_unavailable [of url_hk01] by blast
  then have failed': "(\<exists>a. fst (scrapeWithRetry (world_rejecting unavailable) url_hk01) = Inl a) \<or>
     (\<exists>a. fst (scrapeWithRetry (world_rejecting unavailable) url_kilowatt) = Inl a) \<or>
     (\<exists>hk01Data kilowattData evs.
        fetch_both (world_rejecting unavailable) = (Inr (hk01Data, kilowattData), evs) \<and>
        fst (process_documents sample_runtime (world_rejecting unavailable) hk01Data kilowattData) =
          Inl NoValidData)"
    by (rule disjI1)
  from fallback_to_last_snapshot [OF failed', of "[old_snapshot]"] some
  have d: "returned (scrapeCarparks sample_runtime (world_rejecting unavailable) [old_snapshot]) =
      Inr (replicate 10 stored_carpark)"
    by (simp add: old_snapshot_def)
  show ?thesis
    by (intro conjI empty some a b none c exhausted d)
qed

text \<open>
  Claim C2: when the latest stored document is less than 3,600,000 ms old, scrapeCarparks
  returns its records with no request, no log entry and no write; a document is fresh 59
  minutes after it was written and not fresh after 61 minutes, when scrapeCarparks runs the
  pipeline and requests the parking listing.
\<close>

theorem fresh_cache_served:
  assumes latest: "findOne_latest store = Some cachedData"
  shows
    "(now w - snapshot_lastUpdated cachedData < 3600000 \<longrightarrow>
        scrapeCarparks rt w store =
          \<lparr>returned = Inr (snapshot_data cachedData), collection = store, effects = []\<rparr>) \<and>
     cache_is_fresh (snapshot_lastUpdated cachedData + 59 * 60 * 1000) cachedData \<and>
     \<not> cache_is_fresh (snapshot_lastUpdated cachedData + 61 * 60 * 1000) cachedData \<and>
     (now w = snapshot_lastUpdated cachedData + 61 * 60 * 1000 \<longrightarrow>
        scrapeCarparks rt w store = scrape_fresh rt w store \<and>
        url_hk01 \<in> set (requests (effects (scrapeCarparks rt w store))))"
  using latest scrape_fresh_requests [of rt w store]
  by (simp add: scrapeCarparks_def cache_is_fresh_def)


theorem fresh_cache_served_witness:
  "findOne_latest [old_snapshot, recent_snapshot] = Some recent_snapshot \<and>
   now (world_rejecting unavailable) - snapshot_lastUpdated recent_snapshot < 3600000 \<and>
   scrapeCarparks sample_runtime (world_rejecting unavailable) [old_snapshot, recent_snapshot] =
     \<lparr>returned = Inr [stored_carpark], collection = [old_snapshot, recent_snapshot], effects = []\<rparr> \<and>
   findOne_latest [old_snapshot] = Some old_snapshot \<and>
   \<not> cache_is_fresh (61 * 60 * 1000) old_snapshot \<and>
   cache_is_fresh (59 * 60 * 1000) old_snapshot \<and>
   now (world_at 3660000) = snapshot_lastUpdated old_snapshot + 61 * 60 * 1000 \<and>
   url_hk01 \<in> set (requests (effects (scrapeCarparks sample_runtime (world_at 3660000) [old_snapshot])))"
proof -
  have latest: "findOne_latest [old_snapshot, recent_snapshot] = Some recent_snapshot"
    by (simp add: old_snapshot_def recent_snapshot_def)
  have age: "now (world_rejecting unavailable) - snapshot_lastUpdated recent_snapshot < 3600000"
    by (simp add: world_rejecting_def recent_snapshot_def)
  from fresh_cache_served [OF latest, of "world_rejecting unavailable" sample_runtime] age
  have served: "scrapeCarparks sample_runtime (world_rejecting unavailable) [old_snapshot, recent_snapshot] =
     \<lparr>returned = Inr [stored_carpark], collection = [old_snapshot, recent_snapshot], effects = []\<rparr>"
    by (simp add: recent_snapshot_def)
  have old: "findOne_latest [old_snapshot] = Some old_snapshot"
    by simp
  from fresh_cache_served [OF old, of "world_rejecting unavailable" sample_runtime]
  have stale: "\<not> cache_is_fresh (61 * 60 * 1000) old_snapshot"
    and fresh: "cache_is_fresh (59 * 60 * 1000) old_snapshot"
    by (simp_all add: old_snapshot_def)
  have late: "now (world_at 3660000) = snapshot_lastUpdated old_snapshot + 61 * 60 * 1000"
    by (simp add: world_at_def old_snapshot_def)
  with fresh_cache_served [OF old, of "world_at 3660000" sample_runtime]
  have fetched: "url_hk01 \<in> set (requests (effects (scrapeCarparks sample_runtime (world_at 3660000)
      [old_snapshot])))"
    by blast
  show ?thesis
    by (intro conjI latest age served old stale fresh late fetched)
qed

end
